theory Spec2Isabelle
  imports Main "HOL-Library.Word"
begin

section \<open>The text-binding shim of agent-watch\<close>

text \<open>
  The repository's C source is one function, in \<^verbatim>\<open>src/lib/sqlite3_helpers.c\<close>:
  \<^verbatim>\<open>
  #include "sqlite3.h"

  /* Wrapper to call sqlite3_bind_text with SQLITE_TRANSIENT, since
     Zig 0.15 cannot cast the sentinel pointer value (-1) to a function pointer. */
  int aw_sqlite3_bind_text_transient(sqlite3_stmt *stmt, int col,
                                      const char *text, int len) {
      return sqlite3_bind_text(stmt, col, text, len, SQLITE_TRANSIENT);
  }
  \<close>
  The function it calls, \<^verbatim>\<open>sqlite3_bind_text\<close>, belongs to the SQLite library and
  not to this repository. It is therefore a parameter of the model: every theorem
  below holds for every function of the primitive's type that could be linked in.
\<close>

subsection \<open>C values\<close>

text \<open>
  A C \<^verbatim>\<open>int\<close> is a 32-bit word, read as two's complement by \<open>sint\<close>. A pointer
  holds an address; in the signatures below the address is a \<open>'w word\<close>, of the
  platform's pointer width \<open>'w\<close>, which the model leaves open. The three pointer
  types of the signature are kept apart, as the C types are. The null pointer is
  address 0.
\<close>

type_synonym c_int = "32 word"

datatype 'a sqlite3_stmt_ptr = Stmt_ptr 'a

datatype 'a char_ptr = Char_ptr 'a

text \<open>
  \<^verbatim>\<open>sqlite3_destructor_type\<close> is the type \<^verbatim>\<open>void (*)(void*)\<close> of the primitive's
  fifth parameter: the address of a function, or a sentinel.
\<close>

datatype 'a sqlite3_destructor_type = Destructor 'a

text \<open>
  \<^verbatim>\<open>SQLITE_TRANSIENT\<close> is a macro of \<^verbatim>\<open>sqlite3.h\<close>,
  \<^verbatim>\<open>((sqlite3_destructor_type)-1)\<close>. The header is not among the sources; the
  comment above the shim gives the value: "the sentinel pointer value (-1)", cast to a
  function pointer. At every pointer width that is the address with all bits set.
\<close>

definition SQLITE_TRANSIENT :: "'w::len word sqlite3_destructor_type" where
  "SQLITE_TRANSIENT = Destructor (- 1)"

subsection \<open>The wrapped primitive\<close>

text \<open>
  The primitive takes the five C arguments and works on a state \<open>'s\<close>: everything the
  library can read or change (the statement's bound values, the caller's memory the
  text pointer points into). It returns its status code and the new state, or \<open>None\<close>
  when the call does not return.
\<close>

type_synonym ('w, 's) bind_text_fn =
  "'s \<Rightarrow> 'w word sqlite3_stmt_ptr \<Rightarrow> c_int \<Rightarrow> 'w word char_ptr \<Rightarrow> c_int \<Rightarrow>
     'w word sqlite3_destructor_type \<Rightarrow> (c_int \<times> 's) option"

subsection \<open>The shim\<close>

text \<open>
  The body is the one \<^verbatim>\<open>return\<close> statement: the call of the primitive with the four
  parameters in their order and \<^verbatim>\<open>SQLITE_TRANSIENT\<close> as the fifth argument; what the
  call returns is what the shim returns.
\<close>

definition aw_sqlite3_bind_text_transient ::
  "('w::len, 's) bind_text_fn \<Rightarrow>
     's \<Rightarrow> 'w word sqlite3_stmt_ptr \<Rightarrow> c_int \<Rightarrow> 'w word char_ptr \<Rightarrow> c_int \<Rightarrow>
       (c_int \<times> 's) option" where
  "aw_sqlite3_bind_text_transient sqlite3_bind_text s stmt col text len =
     sqlite3_bind_text s stmt col text len SQLITE_TRANSIENT"

subsection \<open>The specification's reference call\<close>

text \<open>
  Section 8 of the specification compares the shim with "invoking the wrapped
  primitive directly with the transient lifetime policy supplied manually": the
  caller writes the sentinel, minus one cast to the destructor type, as the fifth
  argument of the primitive itself.
\<close>

definition direct_bind_text_transient ::
  "('w::len, 's) bind_text_fn \<Rightarrow>
     's \<Rightarrow> 'w word sqlite3_stmt_ptr \<Rightarrow> c_int \<Rightarrow> 'w word char_ptr \<Rightarrow> c_int \<Rightarrow>
       (c_int \<times> 's) option" where
  "direct_bind_text_transient primitive s stmt col text len =
     (let transient_policy = Destructor (- 1)
      in primitive s stmt col text len transient_policy)"

subsection \<open>Observing the calls\<close>

text \<open>
  To say which calls reach the library, and with which arguments, a primitive can be
  run with a log: the state is paired with the list of calls received so far, and
  each call that returns is appended with its five arguments as the library got them.
  On the state itself the logged primitive does what the primitive does.
\<close>

datatype 'a bind_text_call =
  Bind_text_call (call_stmt: "'a sqlite3_stmt_ptr") (call_col: c_int)
    (call_text: "'a char_ptr") (call_len: c_int)
    (call_destructor: "'a sqlite3_destructor_type")

definition logged ::
  "('w, 's) bind_text_fn \<Rightarrow> ('w, 's \<times> 'w word bind_text_call list) bind_text_fn" where
  "logged primitive w stmt col text len destructor =
     (case primitive (fst w) stmt col text len destructor of
        None \<Rightarrow> None
      | Some (rc, s') \<Rightarrow>
          Some (rc, (s', snd w @ [Bind_text_call stmt col text len destructor])))"

subsection \<open>The lifetime policy\<close>

text \<open>
  Modelled from the spec: what the fifth argument means to the library is fixed by
  \<^verbatim>\<open>sqlite3.h\<close> and the library's code, which are not among the sources. The
  glossary defines the transient lifetime policy as "an instruction to the underlying
  library telling it to copy the supplied data immediately rather than retain a
  pointer into caller-owned memory". The library reads that instruction off the
  address it is handed: the sentinel minus one, all bits set, asks for the copy; with
  any other address, null included, the library keeps the caller's pointer.
\<close>

datatype lifetime_policy = Copy_immediately | Retain_pointer

definition lifetime_policy_of :: "'w::len word sqlite3_destructor_type \<Rightarrow> lifetime_policy" where
  "lifetime_policy_of destructor =
     (case destructor of
        Destructor address \<Rightarrow> if address = - 1 then Copy_immediately else Retain_pointer)"

subsection \<open>A sample primitive\<close>

text \<open>
  An executable stand-in for the library, on which the theorems are run at concrete
  calls. It keeps the outline of the documented primitive: \<^verbatim>\<open>SQLITE_MISUSE\<close> (21)
  for a null statement handle, \<^verbatim>\<open>SQLITE_RANGE\<close> (25) for a column index below 1,
  and otherwise \<^verbatim>\<open>SQLITE_OK\<close> (0), the value being recorded with the lifetime policy
  that the fifth argument selects. Its state is the list of values bound so far.
\<close>

record 'a bound_value =
  bound_col :: c_int
  bound_text :: "'a char_ptr"
  bound_len :: c_int
  bound_policy :: lifetime_policy

definition sample_bind_text :: "('w::len, 'w word bound_value list) bind_text_fn" where
  "sample_bind_text s stmt col text len destructor =
     (if stmt = Stmt_ptr 0 then Some (21, s)
      else if sint col < 1 then Some (25, s)
      else Some (0, s @ [\<lparr>bound_col = col, bound_text = text, bound_len = len,
                            bound_policy = lifetime_policy_of destructor\<rparr>]))"

subsection \<open>A primitive that only notes its call\<close>


subsection \<open>The shim over a library that need not be a function\<close>

text \<open>
  A function cannot fail to be deterministic. To ask whether the shim is, the call of
  the library is taken as a relation: from a state and five arguments it may return
  an outcome, several different ones, or none. The body of the shim is still the one
  \<^verbatim>\<open>return\<close> statement: the shim may return an outcome when the call of the library
  with the four parameters and \<^verbatim>\<open>SQLITE_TRANSIENT\<close> may return it, and in no other
  way.
\<close>

type_synonym ('w, 's) bind_text_rel =
  "'s \<Rightarrow> 'w word sqlite3_stmt_ptr \<Rightarrow> c_int \<Rightarrow> 'w word char_ptr \<Rightarrow> c_int \<Rightarrow>
     'w word sqlite3_destructor_type \<Rightarrow> c_int \<times> 's \<Rightarrow> bool"

inductive aw_sqlite3_bind_text_transient_rel ::
  "('w::len, 's) bind_text_rel \<Rightarrow>
     's \<Rightarrow> 'w word sqlite3_stmt_ptr \<Rightarrow> c_int \<Rightarrow> 'w word char_ptr \<Rightarrow> c_int \<Rightarrow>
       c_int \<times> 's \<Rightarrow> bool"
  for sqlite3_bind_text :: "('w::len, 's) bind_text_rel" where
  return_call:
    "sqlite3_bind_text s stmt col text len SQLITE_TRANSIENT (rc, s') \<Longrightarrow>
       aw_sqlite3_bind_text_transient_rel sqlite3_bind_text s stmt col text len (rc, s')"

code_pred (modes: (i \<Rightarrow> i \<Rightarrow> i \<Rightarrow> i \<Rightarrow> i \<Rightarrow> i \<Rightarrow> i \<Rightarrow> bool)
    \<Rightarrow> i \<Rightarrow> i \<Rightarrow> i \<Rightarrow> i \<Rightarrow> i \<Rightarrow> i \<Rightarrow> bool)
  aw_sqlite3_bind_text_transient_rel .

text \<open>
  A library that is a function of its five arguments and the state, as in the rest of
  this theory, is the relation that holds of the one outcome the function returns,
  and of none when the function does not return.
\<close>

definition as_relation :: "('w, 's) bind_text_fn \<Rightarrow> ('w, 's) bind_text_rel" where
  "as_relation primitive s stmt col text len destructor outcome =
     (primitive s stmt col text len destructor = Some outcome)"

section \<open>Properties\<close>

text \<open>
  C1. For every statement handle, column index, text pointer and length, and from
  every state, the shim returns the same status code and leaves the same state as the
  direct call of the primitive with the transient policy written by hand; and it
  returns exactly when that call returns.
\<close>

theorem aw_refines_direct_call:
  "aw_sqlite3_bind_text_transient primitive s stmt col text len
     = direct_bind_text_transient primitive s stmt col text len
   \<and> map_option fst (aw_sqlite3_bind_text_transient primitive s stmt col text len)
     = map_option fst (direct_bind_text_transient primitive s stmt col text len)
   \<and> map_option snd (aw_sqlite3_bind_text_transient primitive s stmt col text len)
     = map_option snd (direct_bind_text_transient primitive s stmt col text len)"
proof -
  have "aw_sqlite3_bind_text_transient primitive s stmt col text len
          = primitive s stmt col text len (Destructor (- 1))"
    by (simp add: aw_sqlite3_bind_text_transient_def SQLITE_TRANSIENT_def)
  moreover have "direct_bind_text_transient primitive s stmt col text len
          = primitive s stmt col text len (Destructor (- 1))"
    by (simp add: direct_bind_text_transient_def)
  ultimately show ?thesis by simp
qed

text \<open>
  C2. The integer the shim returns is the status code of the underlying call, as it
  is: for every code \<open>rc\<close>, success or error, the shim returns \<open>rc\<close> exactly when the
  call of the primitive returns \<open>rc\<close>. No code is translated and none is added.
\<close>

theorem aw_status_code_unmodified:
  "map_option fst (aw_sqlite3_bind_text_transient primitive s stmt col text len)
     = map_option fst (primitive s stmt col text len SQLITE_TRANSIENT)
   \<and> ((\<exists>s'. aw_sqlite3_bind_text_transient primitive s stmt col text len = Some (rc, s'))
        = (\<exists>s'. primitive s stmt col text len SQLITE_TRANSIENT = Some (rc, s')))"
  unfolding aw_sqlite3_bind_text_transient_def by simp




text \<open>
  C5. The shim validates nothing and recovers from nothing. A null text pointer, a
  null statement handle and any length whatever are handed to the primitive as they
  are; and for every input the shim's outcome, an error code included, is the
  primitive's outcome on that input: the shim rejects no input the primitive accepts,
  and turns no error of the primitive into something else.
\<close>

theorem aw_no_validation:
  "aw_sqlite3_bind_text_transient primitive s stmt col (Char_ptr 0) len
     = primitive s stmt col (Char_ptr 0) len SQLITE_TRANSIENT
   \<and> aw_sqlite3_bind_text_transient primitive s (Stmt_ptr 0) col text len
     = primitive s (Stmt_ptr 0) col text len SQLITE_TRANSIENT
   \<and> (aw_sqlite3_bind_text_transient primitive s stmt col text len = Some (rc, s'))
     = (primitive s stmt col text len SQLITE_TRANSIENT = Some (rc, s'))
   \<and> (aw_sqlite3_bind_text_transient primitive s stmt col text len = None)
     = (primitive s stmt col text len SQLITE_TRANSIENT = None)"
  by (simp add: aw_sqlite3_bind_text_transient_def)

text \<open>
  C6. The interface of the shim is its signature. Linked against a primitive of the
  library's type, the shim is a function of a statement handle, a column index, a
  text pointer and a length, in that order, and returns an integer status code: the
  types of the primitive's first four parameters and of its result. As a function of
  these four arguments it is the primitive with its fifth parameter fixed.
\<close>

theorem aw_signature:
  "(aw_sqlite3_bind_text_transient (sqlite3_bind_text :: ('w::len, 's) bind_text_fn)
      :: 's \<Rightarrow> 'w word sqlite3_stmt_ptr \<Rightarrow> c_int \<Rightarrow> 'w word char_ptr \<Rightarrow> c_int
           \<Rightarrow> (c_int \<times> 's) option)
     = (\<lambda>(s :: 's) (stmt :: 'w word sqlite3_stmt_ptr) (col :: c_int)
          (text :: 'w word char_ptr) (len :: c_int).
          (sqlite3_bind_text s stmt col text len
             (SQLITE_TRANSIENT :: 'w word sqlite3_destructor_type)
           :: (c_int \<times> 's) option))"
  by (intro ext) (simp add: aw_sqlite3_bind_text_transient_def)

text \<open>
  C8. The shim is deterministic, and adds no source of nondeterminism. Over any
  library, a function or not, the outcomes the shim may return are exactly the
  outcomes the library's call with \<^verbatim>\<open>SQLITE_TRANSIENT\<close> may return: none is added and
  none is lost. With the library a function of its five arguments and the state, the
  shim may return an outcome exactly when the shim as a function returns it, and two
  invocations from equal states with equal arguments return equal status codes and
  leave equal states.
\<close>

lemma aw_sqlite3_bind_text_transient_rel_iff:
  "aw_sqlite3_bind_text_transient_rel library s stmt col text len outcome
     = library s stmt col text len SQLITE_TRANSIENT outcome"
proof
  assume "aw_sqlite3_bind_text_transient_rel library s stmt col text len outcome"
  then show "library s stmt col text len SQLITE_TRANSIENT outcome"
    by (rule aw_sqlite3_bind_text_transient_rel.cases) simp
next
  assume "library s stmt col text len SQLITE_TRANSIENT outcome"
  then show "aw_sqlite3_bind_text_transient_rel library s stmt col text len outcome"
    by (cases outcome) (simp add: return_call)
qed

theorem aw_deterministic:
  "aw_sqlite3_bind_text_transient_rel library s stmt col text len outcome
     = library s stmt col text len SQLITE_TRANSIENT outcome
   \<and> aw_sqlite3_bind_text_transient_rel (as_relation primitive) s stmt col text len outcome
     = (aw_sqlite3_bind_text_transient primitive s stmt col text len = Some outcome)
   \<and> (s1 = s2 \<and> stmt1 = stmt2 \<and> col1 = col2 \<and> text1 = text2 \<and> len1 = len2
        \<and> aw_sqlite3_bind_text_transient_rel (as_relation primitive)
              s1 stmt1 col1 text1 len1 (rc1, s1')
        \<and> aw_sqlite3_bind_text_transient_rel (as_relation primitive)
              s2 stmt2 col2 text2 len2 (rc2, s2')
      \<longrightarrow> rc1 = rc2 \<and> s1' = s2')"
proof (intro conjI impI)
  show "aw_sqlite3_bind_text_transient_rel library s stmt col text len outcome
     = library s stmt col text len SQLITE_TRANSIENT outcome"
    by (rule aw_sqlite3_bind_text_transient_rel_iff)
  show "aw_sqlite3_bind_text_transient_rel (as_relation primitive) s stmt col text len outcome
     = (aw_sqlite3_bind_text_transient primitive s stmt col text len = Some outcome)"
    by (simp add: aw_sqlite3_bind_text_transient_rel_iff as_relation_def
        aw_sqlite3_bind_text_transient_def)
  assume both: "s1 = s2 \<and> stmt1 = stmt2 \<and> col1 = col2 \<and> text1 = text2 \<and> len1 = len2
        \<and> aw_sqlite3_bind_text_transient_rel (as_relation primitive)
              s1 stmt1 col1 text1 len1 (rc1, s1')
        \<and> aw_sqlite3_bind_text_transient_rel (as_relation primitive)
              s2 stmt2 col2 text2 len2 (rc2, s2')"
  from both have "aw_sqlite3_bind_text_transient_rel (as_relation primitive)
                    s1 stmt1 col1 text1 len1 (rc1, s1')"
    by (elim conjE)
  then have first: "primitive s1 stmt1 col1 text1 len1 SQLITE_TRANSIENT = Some (rc1, s1')"
    unfolding aw_sqlite3_bind_text_transient_rel_iff as_relation_def .
  from both have "aw_sqlite3_bind_text_transient_rel (as_relation primitive)
                    s2 stmt2 col2 text2 len2 (rc2, s2')"
    by (elim conjE)
  then have second: "primitive s2 stmt2 col2 text2 len2 SQLITE_TRANSIENT = Some (rc2, s2')"
    unfolding aw_sqlite3_bind_text_transient_rel_iff as_relation_def .
  from both have "primitive s1 stmt1 col1 text1 len1 SQLITE_TRANSIENT
                    = primitive s2 stmt2 col2 text2 len2 SQLITE_TRANSIENT"
    by (elim conjE) (simp only:)
  then have "Some (rc1, s1') = Some (rc2, s2')"
    by (simp only: first second)
  then have same: "(rc1, s1') = (rc2, s2')"
    by (simp only: option.inject)
  from same show "rc1 = rc2" by simp
  from same show "s1' = s2'" by simp
qed

theorem aw_deterministic_witness:
  "(([] @ [] :: 64 word bound_value list) = []
      \<and> Stmt_ptr (4095 + 1 :: 64 word) = Stmt_ptr 4096 \<and> (2 - 1 :: c_int) = 1
      \<and> Char_ptr (2 * 4096 :: 64 word) = Char_ptr 8192 \<and> (2 + 3 :: c_int) = 5
      \<and> aw_sqlite3_bind_text_transient_rel (as_relation sample_bind_text) ([] @ [])
            (Stmt_ptr (4095 + 1 :: 64 word)) (2 - 1) (Char_ptr (2 * 4096)) (2 + 3)
            (21 - 21, [\<lparr>bound_col = 1, bound_text = Char_ptr 8192, bound_len = 5,
                          bound_policy = Copy_immediately\<rparr>] @ [])
      \<and> aw_sqlite3_bind_text_transient_rel (as_relation sample_bind_text) []
            (Stmt_ptr (4096 :: 64 word)) 1 (Char_ptr 8192) 5
            (0, [\<lparr>bound_col = 1, bound_text = Char_ptr 8192, bound_len = 5,
                    bound_policy = Copy_immediately\<rparr>]))
   \<and> (21 - 21 :: c_int) = 0
   \<and> [\<lparr>bound_col = 1, bound_text = Char_ptr (8192 :: 64 word), bound_len = 5,
          bound_policy = Copy_immediately\<rparr>] @ []
       = [\<lparr>bound_col = 1, bound_text = Char_ptr 8192, bound_len = 5,
             bound_policy = Copy_immediately\<rparr>]"
proof -
  have run: "aw_sqlite3_bind_text_transient sample_bind_text []
               (Stmt_ptr (4096 :: 64 word)) 1 (Char_ptr 8192) 5
      = Some (0, [\<lparr>bound_col = 1, bound_text = Char_ptr 8192, bound_len = 5,
                     bound_policy = Copy_immediately\<rparr>])"
    by (simp add: aw_sqlite3_bind_text_transient_def sample_bind_text_def
        lifetime_policy_of_def SQLITE_TRANSIENT_def)
  note at_run = aw_deterministic [of "as_relation sample_bind_text" "[]"
      "Stmt_ptr (4096 :: 64 word)" 1
      "Char_ptr 8192" 5 "(0, [\<lparr>bound_col = 1, bound_text = Char_ptr 8192, bound_len = 5,
                                bound_policy = Copy_immediately\<rparr>])" sample_bind_text]
  from at_run [THEN conjunct2, THEN conjunct1, THEN iffD2, OF run]
  have second: "aw_sqlite3_bind_text_transient_rel (as_relation sample_bind_text) []
            (Stmt_ptr (4096 :: 64 word)) 1 (Char_ptr 8192) 5
            (0, [\<lparr>bound_col = 1, bound_text = Char_ptr 8192, bound_len = 5,
                    bound_policy = Copy_immediately\<rparr>])" .
  have args: "([] @ [] :: 64 word bound_value list) = []
      \<and> Stmt_ptr (4095 + 1 :: 64 word) = Stmt_ptr 4096 \<and> (2 - 1 :: c_int) = 1
      \<and> Char_ptr (2 * 4096 :: 64 word) = Char_ptr 8192 \<and> (2 + 3 :: c_int) = 5"
    by simp
  from second have first: "aw_sqlite3_bind_text_transient_rel (as_relation sample_bind_text)
            ([] @ []) (Stmt_ptr (4095 + 1 :: 64 word)) (2 - 1) (Char_ptr (2 * 4096)) (2 + 3)
            (21 - 21, [\<lparr>bound_col = 1, bound_text = Char_ptr 8192, bound_len = 5,
                          bound_policy = Copy_immediately\<rparr>] @ [])"
    by simp
  note hyps = conjI [OF args [THEN conjunct1]
      conjI [OF args [THEN conjunct2, THEN conjunct1]
        conjI [OF args [THEN conjunct2, THEN conjunct2, THEN conjunct1]
          conjI [OF args [THEN conjunct2, THEN conjunct2, THEN conjunct2, THEN conjunct1]
            conjI [OF args [THEN conjunct2, THEN conjunct2, THEN conjunct2, THEN conjunct2]
              conjI [OF first second]]]]]]
  note at_both = aw_deterministic [of "as_relation sample_bind_text" "[]"
      "Stmt_ptr (4096 :: 64 word)" 1 "Char_ptr 8192" 5 "(0, [])" sample_bind_text
      "[] @ []" "[]" "Stmt_ptr (4095 + 1)" "Stmt_ptr 4096" "2 - 1" 1
      "Char_ptr (2 * 4096)" "Char_ptr 8192" "2 + 3" 5
      "21 - 21" "[\<lparr>bound_col = 1, bound_text = Char_ptr 8192, bound_len = 5,
                    bound_policy = Copy_immediately\<rparr>] @ []"
      0 "[\<lparr>bound_col = 1, bound_text = Char_ptr 8192, bound_len = 5,
             bound_policy = Copy_immediately\<rparr>]"]
  from at_both [THEN conjunct2, THEN conjunct2, THEN mp, OF hyps] hyps
  show ?thesis
    by (intro conjI) (elim conjE, assumption)+
qed

text \<open>
  C9. The shim returns whenever the wrapped call returns, and with that call's result:
  its body is the one call and nothing else. Run against a logged primitive, a call
  of the primitive that returns makes the shim return, after exactly one call of the
  library.
\<close>

theorem aw_terminates:
  assumes "primitive s stmt col text len SQLITE_TRANSIENT = Some (rc, s')"
  shows "aw_sqlite3_bind_text_transient primitive s stmt col text len = Some (rc, s')
     \<and> (\<exists>calls'. aw_sqlite3_bind_text_transient (logged primitive) (s, calls) stmt col text len
                    = Some (rc, (s', calls'))
               \<and> length calls' = Suc (length calls))"
proof
  show "aw_sqlite3_bind_text_transient primitive s stmt col text len = Some (rc, s')"
    using assms by (simp add: aw_sqlite3_bind_text_transient_def)
next
  have "aw_sqlite3_bind_text_transient (logged primitive) (s, calls) stmt col text len
          = Some (rc, (s', calls @ [Bind_text_call stmt col text len SQLITE_TRANSIENT]))"
    using assms by (simp add: aw_sqlite3_bind_text_transient_def logged_def)
  then show "\<exists>calls'. aw_sqlite3_bind_text_transient (logged primitive) (s, calls) stmt col text len
                    = Some (rc, (s', calls'))
               \<and> length calls' = Suc (length calls)"
    by simp
qed

theorem aw_terminates_witness:
  "sample_bind_text [] (Stmt_ptr (4096 :: 64 word)) 0 (Char_ptr 0) (- 1) SQLITE_TRANSIENT
     = Some (25, [])
   \<and> aw_sqlite3_bind_text_transient sample_bind_text [] (Stmt_ptr (4096 :: 64 word)) 0
       (Char_ptr 0) (- 1) = Some (25, [])
   \<and> (\<exists>calls'. aw_sqlite3_bind_text_transient (logged sample_bind_text) ([], [])
                   (Stmt_ptr (4096 :: 64 word)) 0 (Char_ptr 0) (- 1) = Some (25, ([], calls'))
              \<and> length calls' = Suc (length ([] :: 64 word bind_text_call list)))"
proof -
  have ret: "sample_bind_text [] (Stmt_ptr (4096 :: 64 word)) 0 (Char_ptr 0) (- 1) SQLITE_TRANSIENT
     = Some (25, [])"
    by (simp add: sample_bind_text_def)
  from aw_terminates [of sample_bind_text "[]" "Stmt_ptr (4096 :: 64 word)" 0 "Char_ptr 0"
      "- 1" 25 "[]" "[]"] ret
  show ?thesis
    by blast
qed

end
